theory Spec2Isabelle
  imports Main
begin

section \<open>JavaScript values handled by the AdMob MCP server\<close>

text \<open>
  Tool arguments reach the handler as parsed JSON. \<open>JNum\<close> carries the integral numbers;
  no tool of this server takes a number, and a JSON number with a fractional part is not
  represented. An object is an association list in key order; its keys are distinct, as
  \<open>JSON.parse\<close> leaves them.
\<close>

datatype json =
    JNull
  | JBool bool
  | JNum int
  | JStr string
  | JArr "json list"
  | JObj "(string \<times> json) list"

text \<open>
  Values the handler builds itself. \<open>Lit\<close> embeds a JSON value unchanged. \<open>NumberOf s\<close> is
  the number that \<open>Number(s)\<close> yields for a string \<open>s\<close> that is not a short decimal
  numeral: whatever it is (\<open>NaN\<close> included), the handler only stores it. \<open>Builtin\<close> names a
  function inherited from a prototype.
\<close>

datatype jsval =
    Undefined
  | NumberOf string
  | Builtin string
  | Lit json
  | Array "jsval list"
  | Object "(string \<times> jsval) list"

datatype js_error =
    TypeError
  | SyntaxError
  | Error string
  | ApiError string
  | SystemError string

text \<open>
  What evaluating a piece of the program comes to: a value, a thrown exception, a wait for
  an event that never arrives, or \<open>Unmodelled\<close> where the result depends on a JavaScript
  coercion that this development does not define (an object that carries its own
  \<open>length\<close> key holding a string, an array or an object).
\<close>

datatype 'a result =
    Returns 'a
  | Throws js_error
  | Pending
  | Unmodelled

fun andThen :: "'a result \<Rightarrow> ('a \<Rightarrow> 'b result) \<Rightarrow> 'b result" where
  "andThen (Returns x) f = f x"
| "andThen (Throws e) f = Throws e"
| "andThen Pending f = Pending"
| "andThen Unmodelled f = Unmodelled"

subsection \<open>Truthiness, property reads and comparisons\<close>

text \<open>\<open>truthy\<close> is JavaScript's \<open>ToBoolean\<close>; \<open>None\<close> stands for \<open>undefined\<close>.\<close>

fun truthy :: "json \<Rightarrow> bool" where
  "truthy JNull = False"
| "truthy (JBool b) = b"
| "truthy (JNum n) = (n \<noteq> 0)"
| "truthy (JStr s) = (s \<noteq> [])"
| "truthy (JArr xs) = True"
| "truthy (JObj kvs) = True"

fun truthy_opt :: "json option \<Rightarrow> bool" where
  "truthy_opt None = False"
| "truthy_opt (Some v) = truthy v"

text \<open>The operator \<open>!v\<close>.\<close>

definition falsy :: "json option \<Rightarrow> bool" where
  "falsy v = (\<not> truthy_opt v)"

definition opt_val :: "json option \<Rightarrow> jsval" where
  "opt_val v = (case v of None \<Rightarrow> Undefined | Some j \<Rightarrow> Lit j)"

text \<open>
  \<open>member v k\<close> is the read \<open>v.k\<close> for the keys \<open>dimension\<close>, \<open>metric\<close>, \<open>order\<close>,
  \<open>installed\<close>, \<open>web\<close>, \<open>client_id\<close> and \<open>client_secret\<close>, which no prototype defines: an
  object answers with its own property, \<open>null\<close> and \<open>undefined\<close> throw, every other value
  answers \<open>undefined\<close>.
\<close>

fun member :: "json option \<Rightarrow> string \<Rightarrow> js_error + json option" where
  "member None k = Inl TypeError"
| "member (Some JNull) k = Inl TypeError"
| "member (Some (JObj kvs)) k = Inr (map_of kvs k)"
| "member (Some v) k = Inr None"

text \<open>The read \<open>v.length\<close>: strings and arrays have one, an object may carry its own.\<close>

fun js_length :: "json option \<Rightarrow> js_error + json option" where
  "js_length None = Inl TypeError"
| "js_length (Some JNull) = Inl TypeError"
| "js_length (Some (JStr s)) = Inr (Some (JNum (int (length s))))"
| "js_length (Some (JArr xs)) = Inr (Some (JNum (int (length xs))))"
| "js_length (Some (JObj kvs)) = Inr (map_of kvs ''length'')"
| "js_length (Some v) = Inr None"

text \<open>
  The comparison \<open>v > 0\<close>. \<open>undefined\<close> becomes \<open>NaN\<close> and \<open>null\<close> becomes \<open>0\<close>, so both
  compare false; a string, an array or an object would first be converted to a number, which
  is left undefined here (\<open>None\<close>).
\<close>

fun gt_zero :: "json option \<Rightarrow> bool option" where
  "gt_zero None = Some False"
| "gt_zero (Some JNull) = Some False"
| "gt_zero (Some (JBool b)) = Some b"
| "gt_zero (Some (JNum n)) = Some (0 < n)"
| "gt_zero (Some v) = None"

text \<open>The test \<open>v.length > 0\<close>.\<close>

definition length_positive :: "json option \<Rightarrow> bool result" where
  "length_positive v =
     (case js_length v of
        Inl e \<Rightarrow> Throws e
      | Inr l \<Rightarrow> (case gt_zero l of None \<Rightarrow> Unmodelled | Some b \<Rightarrow> Returns b))"

text \<open>
  The test \<open>Object.keys(v).length > 0\<close> on a truthy value: the keys of a string or an array
  are its indices, a number or a boolean has none.
\<close>

fun has_keys :: "json \<Rightarrow> bool" where
  "has_keys (JStr s) = (s \<noteq> [])"
| "has_keys (JArr xs) = (xs \<noteq> [])"
| "has_keys (JObj kvs) = (kvs \<noteq> [])"
| "has_keys v = False"

subsection \<open>Strings: \<open>split\<close> and \<open>Number\<close>\<close>

fun js_split :: "char \<Rightarrow> string \<Rightarrow> string list" where
  "js_split sep [] = [[]]"
| "js_split sep (c # cs) =
     (if c = sep then [] # js_split sep cs
      else (case js_split sep cs of [] \<Rightarrow> [[c]] | p # ps \<Rightarrow> (c # p) # ps))"

definition digit_val :: "char \<Rightarrow> nat option" where
  "digit_val = map_of (zip ''0123456789'' [0, 1, 2, 3, 4, 5, 6, 7, 8, 9])"

fun decimal :: "nat \<Rightarrow> string \<Rightarrow> nat option" where
  "decimal acc [] = Some acc"
| "decimal acc (c # cs) =
     (case digit_val c of None \<Rightarrow> None | Some d \<Rightarrow> decimal (10 * acc + d) cs)"

text \<open>
  \<open>Number(s)\<close>: the empty string is \<open>0\<close>, a decimal numeral of at most 15 digits is its
  value (exact in a double), and every other string is kept as \<open>NumberOf s\<close>.
\<close>

definition js_Number :: "string \<Rightarrow> jsval" where
  "js_Number s =
     (if s = [] then Lit (JNum 0)
      else if 15 < length s then NumberOf s
      else (case decimal 0 s of None \<Rightarrow> NumberOf s | Some n \<Rightarrow> Lit (JNum (int n))))"

text \<open>
  \<open>v.split("-").map(Number)\<close>: only a string has \<open>split\<close>; on \<open>undefined\<close> and \<open>null\<close> the
  read throws, on any other JSON value the call of a non-function throws.
\<close>

fun split_date :: "json option \<Rightarrow> jsval list result" where
  "split_date (Some (JStr s)) = Returns (map js_Number (js_split CHR ''-'' s))"
| "split_date v = Throws TypeError"

text \<open>Array destructuring \<open>[a, b, c] = xs\<close>: a missing element is \<open>undefined\<close>.\<close>

definition element :: "jsval list \<Rightarrow> nat \<Rightarrow> jsval" where
  "element xs i = (if i < length xs then xs ! i else Undefined)"

definition date_object :: "jsval list \<Rightarrow> jsval" where
  "date_object parts =
     Object [(''year'', element parts 0), (''month'', element parts 1), (''day'', element parts 2)]"

section \<open>Tool results\<close>

text \<open>
  The text of a content block is a string, or \<open>Pretty v\<close> for \<open>JSON.stringify(v, null, 2)\<close>.
  \<open>isError\<close> is \<open>None\<close> where the returned object has no such key.
\<close>

datatype js_text = Plain string | Pretty jsval

record content_block =
  ctype :: string
  ctext :: js_text

record tool_result =
  content :: "content_block list"
  isError :: "bool option"

definition error_result :: "string \<Rightarrow> tool_result" where
  "error_result msg = \<lparr>content = [\<lparr>ctype = ''text'', ctext = Plain msg\<rparr>], isError = Some True\<rparr>"

definition ok_result :: "jsval \<Rightarrow> tool_result" where
  "ok_result v = \<lparr>content = [\<lparr>ctype = ''text'', ctext = Pretty v\<rparr>], isError = None\<rparr>"

section \<open>The report specification (generate_network_report, generate_mediation_report)\<close>

text \<open>\<open>if (dimensions && dimensions.length > 0) reportSpec.dimensions = dimensions\<close>\<close>

definition dimensions_part :: "json option \<Rightarrow> (string \<times> jsval) list result" where
  "dimensions_part d =
     (if truthy_opt d
      then andThen (length_positive d)
             (\<lambda>b. Returns (if b then [(''dimensions'', opt_val d)] else []))
      else Returns [])"

text \<open>
  The callback of \<open>dimensionFilters.map\<close>. On an array the read \<open>filter.values\<close> finds
  \<open>Array.prototype.values\<close>.
\<close>

fun filter_values :: "json \<Rightarrow> js_error + jsval" where
  "filter_values JNull = Inl TypeError"
| "filter_values (JObj kvs) = Inr (opt_val (map_of kvs ''values''))"
| "filter_values (JArr xs) = Inr (Builtin ''Array.prototype.values'')"
| "filter_values v = Inr Undefined"

definition filter_entry :: "json \<Rightarrow> jsval result" where
  "filter_entry f =
     (case member (Some f) ''dimension'' of
        Inl e \<Rightarrow> Throws e
      | Inr d \<Rightarrow>
          (case filter_values f of
             Inl e \<Rightarrow> Throws e
           | Inr vs \<Rightarrow>
               Returns (Object [(''dimension'', opt_val d),
                                (''matchesAny'', Object [(''values'', vs)])])))"

fun map_filters :: "json list \<Rightarrow> jsval list result" where
  "map_filters [] = Returns []"
| "map_filters (f # fs) =
     andThen (filter_entry f) (\<lambda>y. andThen (map_filters fs) (\<lambda>ys. Returns (y # ys)))"

text \<open>
  \<open>if (dimensionFilters && Object.keys(dimensionFilters).length > 0)\<close>: only an array has
  \<open>map\<close>, so a non-empty string or object throws at the call.
\<close>

definition filters_part :: "json option \<Rightarrow> (string \<times> jsval) list result" where
  "filters_part f =
     (case f of
        None \<Rightarrow> Returns []
      | Some fj \<Rightarrow>
          (if truthy fj \<and> has_keys fj
           then (case fj of
                   JArr xs \<Rightarrow>
                     andThen (map_filters xs) (\<lambda>ys. Returns [(''dimensionFilters'', Array ys)])
                 | _ \<Rightarrow> Throws TypeError)
           else Returns []))"

text \<open>The test \<open>c.k.length > 0\<close> of a sort condition \<open>c\<close>.\<close>

definition field_nonempty :: "json option \<Rightarrow> string \<Rightarrow> bool result" where
  "field_nonempty c k =
     (case member c k of Inl e \<Rightarrow> Throws e | Inr v \<Rightarrow> length_positive v)"

text \<open>
  What one sort condition pushes onto \<open>sortConditions\<close>; \<open>k\<close> is \<open>dimension\<close> or \<open>metric\<close>.
  The conjunction \<open>c && c.k.length > 0 && c.order.length > 0\<close> stops at its first false
  operand.
\<close>

definition sort_entry :: "string \<Rightarrow> json option \<Rightarrow> jsval list result" where
  "sort_entry k c =
     (if truthy_opt c
      then andThen (field_nonempty c k)
             (\<lambda>b1. if b1
                    then andThen (field_nonempty c ''order'')
                           (\<lambda>b2. if b2
                                  then (case member c k of
                                          Inl e \<Rightarrow> Throws e
                                        | Inr kv \<Rightarrow>
                                            (case member c ''order'' of
                                               Inl e \<Rightarrow> Throws e
                                             | Inr ov \<Rightarrow>
                                                 Returns [Object [(k, opt_val kv),
                                                                  (''order'', opt_val ov)]]))
                                  else Returns [])
                    else Returns [])
      else Returns [])"

definition supplied :: "json option \<Rightarrow> bool" where
  "supplied c = (case c of None \<Rightarrow> False | Some cj \<Rightarrow> truthy cj \<and> has_keys cj)"

definition sort_part :: "json option \<Rightarrow> json option \<Rightarrow> (string \<times> jsval) list result" where
  "sort_part dimensionSortCondition metricSortCondition =
     (if supplied dimensionSortCondition \<or> supplied metricSortCondition
      then andThen (sort_entry ''dimension'' dimensionSortCondition)
             (\<lambda>ds. andThen (sort_entry ''metric'' metricSortCondition)
                (\<lambda>ms. Returns (if ds @ ms \<noteq> []
                               then [(''sortConditions'', Array (ds @ ms))] else [])))
      else Returns [])"

text \<open>
  Lines 377 to 476 of the five-tool handler: from the arguments to the report specification
  (\<open>Inr\<close>), or to the tool result of an early return (\<open>Inl\<close>). The two dates are split
  before the required parameters are checked.
\<close>

definition build_report_spec :: "(string \<rightharpoonup> json) \<Rightarrow> (tool_result + jsval) result" where
  "build_report_spec args =
     andThen (split_date (args ''dateRangeStart'')) (\<lambda>s.
     andThen (split_date (args ''dateRangeEnd'')) (\<lambda>e.
       if falsy (args ''dateRangeStart'') \<or> falsy (args ''dateRangeEnd'') \<or> falsy (args ''metrics'')
       then Returns (Inl (error_result ''Missing required parameters.''))
       else
         andThen (dimensions_part (args ''dimensions'')) (\<lambda>dims.
         andThen (filters_part (args ''dimensionFilters'')) (\<lambda>filters.
         andThen (sort_part (args ''dimensionSortCondition'') (args ''metricSortCondition'')) (\<lambda>sorts.
           Returns (Inr (Object
             ([(''dateRange'', Object [(''startDate'', date_object s), (''endDate'', date_object e)]),
               (''metrics'', opt_val (args ''metrics''))]
              @ dims @ filters @ sorts))))))))"

section \<open>The credential store\<close>

text \<open>
  The OAuth2 client of the Google library, as far as this program reads and writes it: the
  two constructor arguments taken from the client secret, and the credentials last set.
\<close>

record oauth_client =
  client_id :: jsval
  client_secret :: jsval
  credentials :: "(string \<times> json) list"

text \<open>
  Library functions the program calls and does not define: \<open>JSON.parse\<close>,
  \<open>JSON.stringify\<close>, \<open>google.auth.fromJSON\<close>, \<open>generateAuthUrl\<close> of an OAuth2 client, and
  \<open>new url.URL(u, "http://localhost:3000").searchParams.get("code")\<close>, which throws where
  the constructor does and is \<open>None\<close> where the query has no \<open>code\<close>.
\<close>

record lib =
  JSON_parse :: "string \<Rightarrow> js_error + json"
  JSON_stringify :: "jsval \<Rightarrow> string"
  fromJSON :: "json \<Rightarrow> js_error + oauth_client"
  generateAuthUrl :: "oauth_client \<Rightarrow> string"
  searchParams_code :: "string \<Rightarrow> js_error + string option"

text \<open>
  The two files under the credentials directory; \<open>None\<close> is a file that cannot be read.
\<close>

record files =
  token_file :: "string option"
  secret_file :: "string option"

text \<open>
  \<open>loadSavedCredentialsIfExist\<close>: every exception of the read, the parse and the library
  is caught and turned into \<open>null\<close>.
\<close>

definition loadSavedCredentialsIfExist :: "lib \<Rightarrow> string option \<Rightarrow> oauth_client option" where
  "loadSavedCredentialsIfExist L file =
     (case file of
        None \<Rightarrow> None
      | Some contents \<Rightarrow>
          (case JSON_parse L contents of
             Inl e \<Rightarrow> None
           | Inr creds \<Rightarrow> (case fromJSON L creds of Inl e \<Rightarrow> None | Inr c \<Rightarrow> Some c)))"

section \<open>The upstream AdMob API\<close>

text \<open>
  A call of the API client either resolves to a response (\<open>ok\<close>, \<open>status\<close>, \<open>data\<close>) or
  throws; \<open>Fails s\<close> carries the string form of what it throws.
\<close>

datatype 'd api_result = Reply bool nat 'd | Fails string

text \<open>
  The data of \<open>accounts.get\<close>, and of one page of \<open>accounts.adUnits.list\<close> or
  \<open>accounts.apps.list\<close> (\<open>items\<close> is the field \<open>adUnits\<close> or \<open>apps\<close>). \<open>None\<close> is a field
  that is absent or \<open>null\<close>.
\<close>

record account =
  account_name :: "json option"
  publisherId :: "json option"
  reportingTimeZone :: "json option"
  currencyCode :: "json option"

record page =
  items :: "json list option"
  nextPageToken :: "string option"

datatype request =
    AccountsGet string
  | AdUnitsList string "string option"
  | AppsList string "string option"
  | NetworkReportGenerate string jsval
  | MediationReportGenerate string jsval

text \<open>
  The world a tool call runs in: the credential files, the environment variable, for each
  endpoint the responses the API will give to the next calls, in order, and the requests
  issued so far. A call that finds no response left waits for ever.
\<close>

record world = files +
  PUBLISHER_CODE :: "string option"
  accounts_get_replies :: "account api_result list"
  adUnits_list_replies :: "page api_result list"
  apps_list_replies :: "page api_result list"
  networkReport_replies :: "json api_result list"
  mediationReport_replies :: "json api_result list"
  requests :: "request list"

text \<open>A number inside a template literal.\<close>

function show_nat :: "nat \<Rightarrow> string" where
  "show_nat n =
     (if n < 10 then [''0123456789'' ! n]
      else show_nat (n div 10) @ [''0123456789'' ! (n mod 10)])"
  by pat_completeness auto
termination
  by (relation "measure id") auto

declare show_nat.simps [simp del]

section \<open>The five-tool handler\<close>

text \<open>
  The \<open>do ... while (pageToken)\<close> loop of \<open>list_ad_units\<close> and \<open>list_apps\<close>, inside its
  \<open>try\<close>. \<open>mk\<close> builds the request from the page token; the loop state is the token and the
  items collected; \<open>rs\<close> are the responses still to come and \<open>log\<close> the requests issued.
\<close>

fun tools5_paginate ::
  "(string option \<Rightarrow> request) \<Rightarrow> page api_result list \<Rightarrow> string option \<Rightarrow> json list \<Rightarrow>
   request list \<Rightarrow> tool_result result \<times> page api_result list \<times> request list" where
  "tools5_paginate mk [] pageToken collected log = (Pending, [], log @ [mk pageToken])"
| "tools5_paginate mk (r # rs) pageToken collected log =
     (case r of
        Fails e \<Rightarrow> (Returns (error_result (''An error occurred: '' @ e)), rs, log @ [mk pageToken])
      | Reply ok status d \<Rightarrow>
          (if ok
           then (let collected' = (case items d of
                                     None \<Rightarrow> collected
                                   | Some xs \<Rightarrow> if 0 < length xs then collected @ xs else collected)
                 in (case nextPageToken d of
                       None \<Rightarrow>
                         (Returns (ok_result (Lit (JArr collected'))), rs, log @ [mk pageToken])
                     | Some t \<Rightarrow>
                         if t = []
                         then (Returns (ok_result (Lit (JArr collected'))), rs, log @ [mk pageToken])
                         else tools5_paginate mk rs (Some t) collected' (log @ [mk pageToken])))
           else (Returns (error_result (''API request failed with status: '' @ show_nat status)),
                 rs, log @ [mk pageToken])))"

definition tools5_report_result :: "json api_result \<Rightarrow> tool_result result" where
  "tools5_report_result r =
     (case r of
        Fails e \<Rightarrow> Throws (ApiError e)
      | Reply ok status d \<Rightarrow>
          (if ok then Returns (ok_result (Lit d))
           else Returns (error_result (''API request failed with status: '' @ show_nat status))))"

definition tools5_generate ::
  "world \<Rightarrow> string \<Rightarrow> string \<Rightarrow> jsval \<Rightarrow> tool_result result \<times> world" where
  "tools5_generate w name parent reportSpec =
     (if name = ''generate_network_report''
      then (case networkReport_replies w of
              [] \<Rightarrow> (Pending, w\<lparr>requests := requests w @ [NetworkReportGenerate parent reportSpec]\<rparr>)
            | r # rs \<Rightarrow>
                (tools5_report_result r,
                 w\<lparr>networkReport_replies := rs,
                   requests := requests w @ [NetworkReportGenerate parent reportSpec]\<rparr>))
      else (case mediationReport_replies w of
              [] \<Rightarrow> (Pending, w\<lparr>requests := requests w @ [MediationReportGenerate parent reportSpec]\<rparr>)
            | r # rs \<Rightarrow>
                (tools5_report_result r,
                 w\<lparr>mediationReport_replies := rs,
                   requests := requests w @ [MediationReportGenerate parent reportSpec]\<rparr>)))"

definition tools5_get_account :: "world \<Rightarrow> string \<Rightarrow> tool_result result \<times> world" where
  "tools5_get_account w parent =
     (case accounts_get_replies w of
        [] \<Rightarrow> (Pending, w\<lparr>requests := requests w @ [AccountsGet parent]\<rparr>)
      | r # rs \<Rightarrow>
          ((case r of
              Fails e \<Rightarrow> Throws (ApiError e)
            | Reply ok status d \<Rightarrow>
                (if ok
                 then Returns (ok_result (Object
                        [(''name'', opt_val (account_name d)),
                         (''publisherId'', opt_val (publisherId d)),
                         (''reportingTimeZone'', opt_val (reportingTimeZone d)),
                         (''currencyCode'', opt_val (currencyCode d))]))
                 else Returns (error_result (''API request failed: '' @ show_nat status)))),
           w\<lparr>accounts_get_replies := rs, requests := requests w @ [AccountsGet parent]\<rparr>))"

text \<open>
  The handler of \<open>CallToolRequestSchema\<close> in the five-tool version: the tool name and the
  arguments of the request (\<open>None\<close> where the request has none), run in a world. It gives the
  outcome of the call and the world after it.
\<close>

definition tools5_handler ::
  "lib \<Rightarrow> world \<Rightarrow> string \<Rightarrow> (string \<rightharpoonup> json) option \<Rightarrow> tool_result result \<times> world" where
  "tools5_handler L w name arguments =
     (case loadSavedCredentialsIfExist L (token_file w) of
        None \<Rightarrow>
          (Returns (error_result ''Not Authenticated. Try running `npm run auth` to authenticate.''), w)
      | Some auth \<Rightarrow>
          (case PUBLISHER_CODE w of
             None \<Rightarrow> (Returns (error_result ''PUBLISHER_CODE environment variable not set.''), w)
           | Some publisherCode \<Rightarrow>
               if publisherCode = []
               then (Returns (error_result ''PUBLISHER_CODE environment variable not set.''), w)
               else if name = ''generate_network_report'' \<or> name = ''generate_mediation_report''
               then (case arguments of
                       None \<Rightarrow> (Returns (error_result ''No arguments provided.''), w)
                     | Some args \<Rightarrow>
                         (case build_report_spec args of
                            Returns (Inl early) \<Rightarrow> (Returns early, w)
                          | Returns (Inr reportSpec) \<Rightarrow>
                              tools5_generate w name (''accounts/'' @ publisherCode) reportSpec
                          | Throws e \<Rightarrow> (Throws e, w)
                          | Pending \<Rightarrow> (Pending, w)
                          | Unmodelled \<Rightarrow> (Unmodelled, w)))
               else if name = ''get_account''
               then tools5_get_account w (''accounts/'' @ publisherCode)
               else if name = ''list_ad_units''
               then (case tools5_paginate (AdUnitsList (''accounts/'' @ publisherCode))
                            (adUnits_list_replies w) None [] (requests w) of
                       (res, rs, log) \<Rightarrow> (res, w\<lparr>adUnits_list_replies := rs, requests := log\<rparr>))
               else if name = ''list_apps''
               then (case tools5_paginate (AppsList (''accounts/'' @ publisherCode))
                            (apps_list_replies w) None [] (requests w) of
                       (res, rs, log) \<Rightarrow> (res, w\<lparr>apps_list_replies := rs, requests := log\<rparr>))
               else (Throws (Error (''Unknown tool: '' @ name)), w)))"

section \<open>The three-tool handler\<close>

text \<open>The same loop as it stands in the three-tool version of the file.\<close>

fun tools3_paginate ::
  "(string option \<Rightarrow> request) \<Rightarrow> page api_result list \<Rightarrow> string option \<Rightarrow> json list \<Rightarrow>
   request list \<Rightarrow> tool_result result \<times> page api_result list \<times> request list" where
  "tools3_paginate mk [] pageToken collected log = (Pending, [], log @ [mk pageToken])"
| "tools3_paginate mk (Fails e # rs) pageToken collected log =
     (Returns (error_result (''An error occurred: '' @ e)), rs, log @ [mk pageToken])"
| "tools3_paginate mk (Reply ok status d # rs) pageToken collected log =
     (if \<not> ok
      then (Returns (error_result (''API request failed with status: '' @ show_nat status)),
            rs, log @ [mk pageToken])
      else (let collected' = (case items d of
                                None \<Rightarrow> collected
                              | Some xs \<Rightarrow> if 0 < length xs then collected @ xs else collected)
            in if truthy_opt (map_option JStr (nextPageToken d))
               then tools3_paginate mk rs (nextPageToken d) collected' (log @ [mk pageToken])
               else (Returns (ok_result (Lit (JArr collected'))), rs, log @ [mk pageToken])))"

definition tools3_get_account :: "world \<Rightarrow> string \<Rightarrow> tool_result result \<times> world" where
  "tools3_get_account w parent =
     (case accounts_get_replies w of
        [] \<Rightarrow> (Pending, w\<lparr>requests := requests w @ [AccountsGet parent]\<rparr>)
      | Fails e # rs \<Rightarrow>
          (Throws (ApiError e),
           w\<lparr>accounts_get_replies := rs, requests := requests w @ [AccountsGet parent]\<rparr>)
      | Reply ok status d # rs \<Rightarrow>
          (if \<not> ok
           then Returns (error_result (''API request failed: '' @ show_nat status))
           else Returns (ok_result (Object
                  [(''name'', opt_val (account_name d)),
                   (''publisherId'', opt_val (publisherId d)),
                   (''reportingTimeZone'', opt_val (reportingTimeZone d)),
                   (''currencyCode'', opt_val (currencyCode d))])),
           w\<lparr>accounts_get_replies := rs, requests := requests w @ [AccountsGet parent]\<rparr>))"

definition tools3_handler ::
  "lib \<Rightarrow> world \<Rightarrow> string \<Rightarrow> (string \<rightharpoonup> json) option \<Rightarrow> tool_result result \<times> world" where
  "tools3_handler L w name arguments =
     (case loadSavedCredentialsIfExist L (token_file w) of
        None \<Rightarrow>
          (Returns (error_result ''Not Authenticated. Try running `npm run auth` to authenticate.''), w)
      | Some auth \<Rightarrow>
          (if \<not> truthy_opt (map_option JStr (PUBLISHER_CODE w))
           then (Returns (error_result ''PUBLISHER_CODE environment variable not set.''), w)
           else (case PUBLISHER_CODE w of
                   None \<Rightarrow> (Returns (error_result ''PUBLISHER_CODE environment variable not set.''), w)
                 | Some publisherCode \<Rightarrow>
                     if name = ''get_account''
                     then tools3_get_account w (''accounts/'' @ publisherCode)
                     else if name = ''list_ad_units''
                     then (case tools3_paginate (AdUnitsList (''accounts/'' @ publisherCode))
                                  (adUnits_list_replies w) None [] (requests w) of
                             (res, rs, log) \<Rightarrow>
                               (res, w\<lparr>adUnits_list_replies := rs, requests := log\<rparr>))
                     else if name = ''list_apps''
                     then (case tools3_paginate (AppsList (''accounts/'' @ publisherCode))
                                  (apps_list_replies w) None [] (requests w) of
                             (res, rs, log) \<Rightarrow>
                               (res, w\<lparr>apps_list_replies := rs, requests := log\<rparr>))
                     else (Throws (Error (''Unknown tool: '' @ name)), w))))"

section \<open>The authorization flow\<close>

text \<open>
  What the flow does to the outside, in order: the listener bound on port 3000, the browser
  opened on the authorization URL, the response to the callback ended, the listener closed,
  a code exchanged at the token endpoint, the token file written.
\<close>

datatype event =
    Listen
  | OpenBrowser string
  | ResponseEnd
  | ServerClose
  | GetToken string
  | WriteTokenFile string

text \<open>
  The world of the \<open>auth\<close> command: the credential files, whether port 3000 is free, the
  \<open>url\<close> of each request that reaches the listener, in order (\<open>None\<close> for a request
  without one), the answer of the token endpoint to a code, whether the token file can be
  written, and the events so far.
\<close>

record auth_world = files +
  port_free :: bool
  incoming :: "string option list"
  token_endpoint :: "string \<Rightarrow> js_error + (string \<times> json) list"
  token_writable :: bool
  events :: "event list"

text \<open>\<open>s.includes(p)\<close>\<close>

fun js_includes :: "string \<Rightarrow> string \<Rightarrow> bool" where
  "js_includes [] p = (p = [])"
| "js_includes (c # cs) p = (take (length p) (c # cs) = p \<or> js_includes cs p)"

text \<open>
  The first lines of both \<open>saveCredentials\<close> and \<open>authenticate\<close>: read and parse the client
  secret, take \<open>keys.installed || keys.web\<close>, and fail when that is falsy.
\<close>

definition client_secret_key :: "lib \<Rightarrow> string option \<Rightarrow> json result" where
  "client_secret_key L file =
     (case file of
        None \<Rightarrow> Throws (SystemError ''ENOENT'')
      | Some contents \<Rightarrow>
          (case JSON_parse L contents of
             Inl e \<Rightarrow> Throws e
           | Inr keys \<Rightarrow>
               (case member (Some keys) ''installed'' of
                  Inl e \<Rightarrow> Throws e
                | Inr installed \<Rightarrow>
                    (case (if truthy_opt installed then Inr installed
                           else member (Some keys) ''web'') of
                       Inl e \<Rightarrow> Throws e
                     | Inr None \<Rightarrow> Throws (Error ''No client secrets found in client_secret.json'')
                     | Inr (Some key) \<Rightarrow>
                         if truthy key then Returns key
                         else Throws (Error ''No client secrets found in client_secret.json'')))))"

text \<open>The read \<open>key.k\<close> of a field of the client secret, as a value.\<close>

definition key_field :: "json \<Rightarrow> string \<Rightarrow> jsval result" where
  "key_field key k = (case member (Some key) k of Inl e \<Rightarrow> Throws e | Inr v \<Rightarrow> Returns (opt_val v))"

text \<open>
  The request listener of \<open>authenticate\<close>, run on the requests as they arrive until the
  promise is settled. A request whose \<open>url\<close> does not include \<open>/oauth2callback\<close> is left
  alone. On the callback the response is ended and the listener closed before the code is
  looked at; an exception of the URL constructor comes before both.
\<close>

fun await_callback ::
  "lib \<Rightarrow> (string \<Rightarrow> js_error + (string \<times> json) list) \<Rightarrow> oauth_client \<Rightarrow> string option list \<Rightarrow>
   event list \<Rightarrow> oauth_client result \<times> string option list \<times> event list" where
  "await_callback L exchange oAuth2Client [] evs = (Pending, [], evs)"
| "await_callback L exchange oAuth2Client (None # reqs) evs =
     await_callback L exchange oAuth2Client reqs evs"
| "await_callback L exchange oAuth2Client (Some u # reqs) evs =
     (if u \<noteq> [] \<and> js_includes u ''/oauth2callback''
      then (case searchParams_code L u of
              Inl e \<Rightarrow> (Throws e, reqs, evs)
            | Inr qs_code \<Rightarrow>
                (case qs_code of
                   None \<Rightarrow>
                     (Throws (Error ''No code found in callback URL''), reqs,
                      evs @ [ResponseEnd, ServerClose])
                 | Some code \<Rightarrow>
                     if code = []
                     then (Throws (Error ''No code found in callback URL''), reqs,
                           evs @ [ResponseEnd, ServerClose])
                     else (case exchange code of
                             Inl e \<Rightarrow> (Throws e, reqs, evs @ [ResponseEnd, ServerClose, GetToken code])
                           | Inr tokens \<Rightarrow>
                               (Returns (oAuth2Client\<lparr>credentials := tokens\<rparr>), reqs,
                                evs @ [ResponseEnd, ServerClose, GetToken code]))))
      else await_callback L exchange oAuth2Client reqs evs)"

text \<open>
  \<open>authenticate\<close>. A port that is taken raises the listener's \<open>error\<close> event, which nothing
  handles: the process ends on it.
\<close>

definition authenticate :: "lib \<Rightarrow> auth_world \<Rightarrow> oauth_client result \<times> auth_world" where
  "authenticate L w =
     (case andThen (client_secret_key L (secret_file w)) (\<lambda>key.
             andThen (key_field key ''client_id'') (\<lambda>cid.
             andThen (key_field key ''client_secret'') (\<lambda>csecret.
               Returns \<lparr>client_id = cid, client_secret = csecret, credentials = []\<rparr>))) of
        Returns oAuth2Client \<Rightarrow>
          (if port_free w
           then (case await_callback L (token_endpoint w) oAuth2Client (incoming w)
                        (events w @ [Listen, OpenBrowser (generateAuthUrl L oAuth2Client)]) of
                   (res, reqs, evs) \<Rightarrow> (res, w\<lparr>incoming := reqs, events := evs\<rparr>))
           else (Throws (SystemError ''EADDRINUSE''), w))
      | Throws e \<Rightarrow> (Throws e, w)
      | Pending \<Rightarrow> (Pending, w)
      | Unmodelled \<Rightarrow> (Unmodelled, w))"

definition saveCredentials :: "lib \<Rightarrow> auth_world \<Rightarrow> oauth_client \<Rightarrow> unit result \<times> auth_world" where
  "saveCredentials L w client =
     (case andThen (client_secret_key L (secret_file w)) (\<lambda>key.
             andThen (key_field key ''client_id'') (\<lambda>cid.
             andThen (key_field key ''client_secret'') (\<lambda>csecret.
               Returns (JSON_stringify L (Object
                 [(''type'', Lit (JStr ''authorized_user'')),
                  (''client_id'', cid),
                  (''client_secret'', csecret),
                  (''refresh_token'', opt_val (map_of (credentials client) ''refresh_token''))]))))) of
        Returns payload \<Rightarrow>
          (if token_writable w
           then (Returns (), w\<lparr>token_file := Some payload, events := events w @ [WriteTokenFile payload]\<rparr>)
           else (Throws (SystemError ''EACCES''), w))
      | Throws e \<Rightarrow> (Throws e, w)
      | Pending \<Rightarrow> (Pending, w)
      | Unmodelled \<Rightarrow> (Unmodelled, w))"

text \<open>
  \<open>authorize\<close>. The client that \<open>authenticate\<close> resolves to is an object, hence truthy, so
  the final \<open>throw new Error("Authentication failed.")\<close> is never reached.
\<close>

definition authorize :: "lib \<Rightarrow> auth_world \<Rightarrow> oauth_client result \<times> auth_world" where
  "authorize L w =
     (case loadSavedCredentialsIfExist L (token_file w) of
        Some client \<Rightarrow> (Returns client, w)
      | None \<Rightarrow>
          (case authenticate L w of
             (Returns client, w') \<Rightarrow>
               (case saveCredentials L w' client of
                  (Returns u, w'') \<Rightarrow> (Returns client, w'')
                | (Throws e, w'') \<Rightarrow> (Throws e, w'')
                | (Pending, w'') \<Rightarrow> (Pending, w'')
                | (Unmodelled, w'') \<Rightarrow> (Unmodelled, w''))
           | (Throws e, w') \<Rightarrow> (Throws e, w')
           | (Pending, w') \<Rightarrow> (Pending, w')
           | (Unmodelled, w') \<Rightarrow> (Unmodelled, w')))"

section \<open>Notions of the specification\<close>

text \<open>
  A page of a list endpoint as the specification speaks of it: a successful response that
  carries a next-page token (present and not empty), or a last one (token absent or empty);
  the items of a page (none where the field is absent); the token a page hands on.
\<close>

fun has_next :: "page api_result \<Rightarrow> bool" where
  "has_next (Reply ok status d) =
     (ok \<and> (case nextPageToken d of None \<Rightarrow> False | Some t \<Rightarrow> t \<noteq> []))"
| "has_next (Fails e) = False"

fun is_last :: "page api_result \<Rightarrow> bool" where
  "is_last (Reply ok status d) =
     (ok \<and> (case nextPageToken d of None \<Rightarrow> True | Some t \<Rightarrow> t = []))"
| "is_last (Fails e) = False"

fun page_items :: "page api_result \<Rightarrow> json list" where
  "page_items (Reply ok status d) = (case items d of None \<Rightarrow> [] | Some xs \<Rightarrow> xs)"
| "page_items (Fails e) = []"

fun next_token :: "page api_result \<Rightarrow> string option" where
  "next_token (Reply ok status d) = nextPageToken d"
| "next_token (Fails e) = None"

text \<open>
  A dimension filter of the tool's input schema, \<open>{dimension: D, values: vs}\<close>, and the
  filter of the provider it stands for, \<open>{dimension: D, matchesAny: {values: vs}}\<close>.
\<close>

fun is_filter :: "json \<Rightarrow> json \<times> json \<Rightarrow> bool" where
  "is_filter (JObj kvs) (D, vs) =
     (map_of kvs ''dimension'' = Some D \<and> map_of kvs ''values'' = Some vs)"
| "is_filter v (D, vs) = False"

fun provider_filter :: "json \<times> json \<Rightarrow> jsval" where
  "provider_filter (D, vs) =
     Object [(''dimension'', Lit D), (''matchesAny'', Object [(''values'', Lit vs)])]"

text \<open>
  A sort condition of the input schema: an object whose field \<open>k\<close> (\<open>dimension\<close> or
  \<open>metric\<close>) and field \<open>order\<close> are the strings \<open>x\<close> and \<open>ord\<close>; and the entry of
  \<open>sortConditions\<close> it stands for.
\<close>

fun is_sort_condition :: "string \<Rightarrow> json \<Rightarrow> string \<Rightarrow> string \<Rightarrow> bool" where
  "is_sort_condition k (JObj kvs) x ord =
     (map_of kvs k = Some (JStr x) \<and> map_of kvs ''order'' = Some (JStr ord))"
| "is_sort_condition k v x ord = False"

definition sort_condition :: "string \<Rightarrow> string \<Rightarrow> string \<Rightarrow> jsval" where
  "sort_condition k x ord = Object [(k, Lit (JStr x)), (''order'', Lit (JStr ord))]"

text \<open>The value under a key of a report specification, if it has the key.\<close>

fun spec_key :: "jsval \<Rightarrow> string \<Rightarrow> jsval option" where
  "spec_key (Object kvs) k = map_of kvs k"
| "spec_key v k = None"

text \<open>A request that the listener takes for the provider's redirect.\<close>

fun is_callback :: "string option \<Rightarrow> bool" where
  "is_callback None = False"
| "is_callback (Some u) = js_includes u ''/oauth2callback''"

section \<open>Sample inputs\<close>

text \<open>
  A library that knows two file contents, a token file and a client secret, and one callback
  URL with a code; and worlds built on it.
\<close>

definition sample_lib :: lib where
  "sample_lib =
     \<lparr>JSON_parse = (\<lambda>s.
        if s = ''token.json''
        then Inr (JObj [(''type'', JStr ''authorized_user''), (''client_id'', JStr ''id-1''),
                        (''client_secret'', JStr ''s3cret''), (''refresh_token'', JStr ''r-1'')])
        else if s = ''client_secret.json''
        then Inr (JObj [(''installed'', JObj [(''client_id'', JStr ''id-1''),
                                              (''client_secret'', JStr ''s3cret'')])])
        else Inl SyntaxError),
      JSON_stringify = (\<lambda>v. ''token.json''),
      fromJSON = (\<lambda>j.
        case j of
          JObj kvs \<Rightarrow>
            (case map_of kvs ''refresh_token'' of
               Some r \<Rightarrow> Inr \<lparr>client_id = opt_val (map_of kvs ''client_id''),
                               client_secret = opt_val (map_of kvs ''client_secret''),
                               credentials = [(''refresh_token'', r)]\<rparr>
             | None \<Rightarrow> Inl (Error ''The incoming JSON object does not contain a refresh_token field''))
        | _ \<Rightarrow> Inl (Error ''Must pass in a JSON object'')),
      generateAuthUrl = (\<lambda>c. ''https://accounts.google.com/o/oauth2/v2/auth''),
      searchParams_code = (\<lambda>u.
        if u = ''/oauth2callback?code=4/abc'' then Inr (Some ''4/abc'') else Inr None)\<rparr>"

definition sample_page1 :: "page api_result" where
  "sample_page1 =
     Reply True 200 \<lparr>items = Some [JStr ''unit-a'', JStr ''unit-b''], nextPageToken = Some ''t1''\<rparr>"

definition sample_page2 :: "page api_result" where
  "sample_page2 = Reply True 200 \<lparr>items = None, nextPageToken = Some ''t2''\<rparr>"

definition sample_page3 :: "page api_result" where
  "sample_page3 = Reply True 200 \<lparr>items = Some [JStr ''unit-c''], nextPageToken = Some []\<rparr>"

definition sample_account :: "account api_result" where
  "sample_account =
     Reply True 200
       \<lparr>account_name = Some (JStr ''accounts/pub-1''), publisherId = Some (JStr ''pub-1''),
        reportingTimeZone = Some (JStr ''Asia/Seoul''), currencyCode = None\<rparr>"

definition sample_world :: world where
  "sample_world =
     \<lparr>token_file = Some ''token.json'', secret_file = Some ''client_secret.json'',
      PUBLISHER_CODE = Some ''pub-1'',
      accounts_get_replies = [sample_account],
      adUnits_list_replies = [sample_page1, sample_page2, sample_page3, Fails ''unused''],
      apps_list_replies = [sample_page3],
      networkReport_replies = [Reply True 200 (JArr [])],
      mediationReport_replies = [],
      requests = []\<rparr>"

definition sample_args :: "string \<rightharpoonup> json" where
  "sample_args =
     [''dateRangeStart'' \<mapsto> JStr ''2024-01-01'', ''dateRangeEnd'' \<mapsto> JStr ''2024-01-07'',
      ''metrics'' \<mapsto> JArr [JStr ''CLICKS'']]"

definition sample_auth_world :: auth_world where
  "sample_auth_world =
     \<lparr>token_file = None, secret_file = Some ''client_secret.json'',
      port_free = True,
      incoming = [Some ''/favicon.ico'', Some ''/oauth2callback?error=access_denied'',
                  Some ''/oauth2callback?code=4/abc''],
      token_endpoint = (\<lambda>code. Inr [(''refresh_token'', JStr ''r-2'')]),
      token_writable = True,
      events = []\<rparr>"

definition sample_spec :: jsval where
  "sample_spec =
     Object
       [(''dateRange'',
         Object [(''startDate'', Object [(''year'', Lit (JNum 2024)), (''month'', Lit (JNum 1)),
                                         (''day'', Lit (JNum 1))]),
                 (''endDate'', Object [(''year'', Lit (JNum 2024)), (''month'', Lit (JNum 1)),
                                       (''day'', Lit (JNum 7))])]),
        (''metrics'', Lit (JArr [JStr ''CLICKS'']))]"

definition sample_filters :: "json list" where
  "sample_filters =
     [JObj [(''dimension'', JStr ''COUNTRY''), (''values'', JArr [JStr ''US'', JStr ''KR''])],
      JObj [(''values'', JArr [JStr ''Android'']), (''dimension'', JStr ''PLATFORM'')]]"

definition sample_dimension_sort :: json where
  "sample_dimension_sort = JObj [(''dimension'', JStr ''DATE''), (''order'', JStr ''ASCENDING'')]"

definition sample_metric_sort :: json where
  "sample_metric_sort = JObj [(''metric'', JStr ''CLICKS''), (''order'', JStr ''DESCENDING'')]"

definition sample_empty_sort :: json where
  "sample_empty_sort = JObj [(''dimension'', JStr []), (''order'', JStr ''ASCENDING'')]"

definition sample_orderless_sort :: json where
  "sample_orderless_sort = JObj [(''metric'', JStr ''CLICKS''), (''order'', JStr [])]"

definition sample_sorted_spec :: jsval where
  "sample_sorted_spec =
     Object
       [(''dateRange'',
         Object [(''startDate'', Object [(''year'', Lit (JNum 2024)), (''month'', Lit (JNum 1)),
                                         (''day'', Lit (JNum 1))]),
                 (''endDate'', Object [(''year'', Lit (JNum 2024)), (''month'', Lit (JNum 1)),
                                       (''day'', Lit (JNum 7))])]),
        (''metrics'', Lit (JArr [JStr ''CLICKS''])),
        (''sortConditions'',
         Array [Object [(''dimension'', Lit (JStr ''DATE'')), (''order'', Lit (JStr ''ASCENDING''))],
                Object [(''metric'', Lit (JStr ''CLICKS'')), (''order'', Lit (JStr ''DESCENDING''))]])]"

section \<open>Pagination (list_ad_units, list_apps)\<close>

lemma tools5_paginate_pages:
  "list_all has_next front \<Longrightarrow> is_last lp \<Longrightarrow>
   tools5_paginate mk (front @ lp # rest) tok acc log =
     (Returns (ok_result (Lit (JArr (acc @ concat (map page_items (front @ [lp])))))),
      rest, log @ map mk (tok # map next_token front))"
proof (induction front arbitrary: tok acc log)
  case Nil
  then show ?case
    by (cases lp) (auto split: option.splits)
next
  case (Cons p front)
  from Cons.prems(1) have p: "has_next p" and fr: "list_all has_next front" by simp_all
  from p obtain st d t where pd: "p = Reply True st d" "nextPageToken d = Some t" "t \<noteq> []"
    by (cases p) (auto split: option.splits)
  show ?case
    using Cons.IH [OF fr Cons.prems(2)] pd
    by (auto split: option.splits)
qed

text \<open>
  C1. Let the upstream list endpoint answer with the pages \<open>front @ [lp]\<close>, all successful,
  every page of \<open>front\<close> carrying a non-empty next-page token and \<open>lp\<close> carrying none or the
  empty one (whatever responses \<open>rest\<close> it would give after them). Then \<open>list_ad_units\<close>, and
  likewise \<open>list_apps\<close>, returns one text block, without \<open>isError\<close>, whose text is
  \<open>JSON.stringify\<close> of the concatenation of the pages' items in page order, and issues
  exactly one request per page: the first without a token, each later one with the token of
  the page before it, and none after \<open>lp\<close>, so that \<open>rest\<close> is left untouched.
\<close>

theorem list_tools_concatenate_pages:
  assumes "loadSavedCredentialsIfExist L (token_file w) = Some auth"
    and "PUBLISHER_CODE w = Some publisherCode" and "publisherCode \<noteq> []"
    and "list_all has_next front" and "is_last lp"
  shows "(adUnits_list_replies w = front @ lp # rest \<longrightarrow>
            tools5_handler L w ''list_ad_units'' arguments =
              (Returns
                \<lparr>content = [\<lparr>ctype = ''text'',
                                        ctext = Pretty (Lit (JArr (concat (map page_items (front @ [lp])))))\<rparr>],
                 isError = None\<rparr>,
               w\<lparr>adUnits_list_replies := rest,
                 requests := requests w @
                   map (AdUnitsList (''accounts/'' @ publisherCode)) (None # map next_token front)\<rparr>))
       \<and> (apps_list_replies w = front @ lp # rest \<longrightarrow>
            tools5_handler L w ''list_apps'' arguments =
              (Returns
                \<lparr>content = [\<lparr>ctype = ''text'',
                                        ctext = Pretty (Lit (JArr (concat (map page_items (front @ [lp])))))\<rparr>],
                 isError = None\<rparr>,
               w\<lparr>apps_list_replies := rest,
                 requests := requests w @
                   map (AppsList (''accounts/'' @ publisherCode)) (None # map next_token front)\<rparr>))"
  using assms tools5_paginate_pages [OF assms(4,5), where acc = "[]"]
  by (simp add: tools5_handler_def ok_result_def)

lemma sample_credentials:
  "loadSavedCredentialsIfExist sample_lib (Some ''token.json'') =
     Some \<lparr>client_id = Lit (JStr ''id-1''), client_secret = Lit (JStr ''s3cret''),
           credentials = [(''refresh_token'', JStr ''r-1'')]\<rparr>"
  by (simp add: loadSavedCredentialsIfExist_def sample_lib_def opt_val_def)

theorem list_tools_concatenate_pages_witness:
  "tools5_handler sample_lib sample_world ''list_ad_units'' None =
     (Returns
                \<lparr>content = [\<lparr>ctype = ''text'', ctext = Pretty (Lit (JArr [JStr ''unit-a'', JStr ''unit-b'', JStr ''unit-c'']))\<rparr>],
                         isError = None\<rparr>,
      sample_world\<lparr>adUnits_list_replies := [Fails ''unused''],
        requests := [AdUnitsList ''accounts/pub-1'' None, AdUnitsList ''accounts/pub-1'' (Some ''t1''),
                     AdUnitsList ''accounts/pub-1'' (Some ''t2'')]\<rparr>)
   \<and> tools5_handler sample_lib sample_world ''list_apps'' None =
     (Returns
                \<lparr>content = [\<lparr>ctype = ''text'', ctext = Pretty (Lit (JArr [JStr ''unit-c'']))\<rparr>],
                         isError = None\<rparr>,
      sample_world\<lparr>apps_list_replies := [], requests := [AppsList ''accounts/pub-1'' None]\<rparr>)"
proof -
  have tok: "token_file sample_world = Some ''token.json''"
    and pc: "PUBLISHER_CODE sample_world = Some ''pub-1''" "''pub-1'' \<noteq> []"
    and req: "requests sample_world = []"
    by (simp_all add: sample_world_def)
  have auth: "loadSavedCredentialsIfExist sample_lib (token_file sample_world) =
     Some \<lparr>client_id = Lit (JStr ''id-1''), client_secret = Lit (JStr ''s3cret''),
           credentials = [(''refresh_token'', JStr ''r-1'')]\<rparr>"
    by (simp add: tok sample_credentials)
  have front: "list_all has_next [sample_page1, sample_page2]"
    by (simp add: sample_page1_def sample_page2_def)
  have lp: "is_last sample_page3"
    by (simp add: sample_page3_def)
  have units: "adUnits_list_replies sample_world = [sample_page1, sample_page2] @ sample_page3 # [Fails ''unused'']"
    by (simp add: sample_world_def)
  have apps: "apps_list_replies sample_world = [] @ sample_page3 # []"
    by (simp add: sample_world_def)
  have none: "list_all has_next []" by simp
  from list_tools_concatenate_pages [OF auth pc front lp, of "[Fails ''unused'']" None] units
  have a: "tools5_handler sample_lib sample_world ''list_ad_units'' None =
     (Returns
                \<lparr>content = [\<lparr>ctype = ''text'', ctext = Pretty (Lit (JArr [JStr ''unit-a'', JStr ''unit-b'', JStr ''unit-c'']))\<rparr>],
                         isError = None\<rparr>,
      sample_world\<lparr>adUnits_list_replies := [Fails ''unused''],
        requests := [AdUnitsList ''accounts/pub-1'' None, AdUnitsList ''accounts/pub-1'' (Some ''t1''),
                     AdUnitsList ''accounts/pub-1'' (Some ''t2'')]\<rparr>)"
    by (simp add: req sample_page1_def sample_page2_def sample_page3_def)
  from list_tools_concatenate_pages [OF auth pc none lp, of "[]" None] apps
  have b: "tools5_handler sample_lib sample_world ''list_apps'' None =
     (Returns
                \<lparr>content = [\<lparr>ctype = ''text'', ctext = Pretty (Lit (JArr [JStr ''unit-c'']))\<rparr>],
                         isError = None\<rparr>,
      sample_world\<lparr>apps_list_replies := [], requests := [AppsList ''accounts/pub-1'' None]\<rparr>)"
    by (simp add: req sample_page3_def)
  from a b show ?thesis by simp
qed

section \<open>Calls without a usable credential\<close>

text \<open>
  C6. When \<open>loadSavedCredentialsIfExist\<close> yields no client, every tool call returns the
  error block "Not Authenticated. ..." with \<open>isError\<close> true, and the world is left as it was:
  no request has been issued and no response of the API consumed.
\<close>

theorem not_authenticated_is_soft_error:
  assumes "loadSavedCredentialsIfExist L (token_file w) = None"
  shows "tools5_handler L w name arguments =
           (Returns \<lparr>content = [\<lparr>ctype = ''text'',
                                   ctext = Plain ''Not Authenticated. Try running `npm run auth` to authenticate.''\<rparr>],
                      isError = Some True\<rparr>, w)
       \<and> requests (snd (tools5_handler L w name arguments)) = requests w"
  using assms by (simp add: tools5_handler_def error_result_def)

theorem not_authenticated_is_soft_error_witness:
  "loadSavedCredentialsIfExist sample_lib (token_file (sample_world\<lparr>token_file := None\<rparr>)) = None
   \<and> tools5_handler sample_lib (sample_world\<lparr>token_file := None\<rparr>) ''get_account'' None =
           (Returns \<lparr>content = [\<lparr>ctype = ''text'',
                                   ctext = Plain ''Not Authenticated. Try running `npm run auth` to authenticate.''\<rparr>],
                      isError = Some True\<rparr>, sample_world\<lparr>token_file := None\<rparr>)
   \<and> requests (snd (tools5_handler sample_lib (sample_world\<lparr>token_file := None\<rparr>) ''get_account'' None)) = []"
proof -
  have none: "loadSavedCredentialsIfExist sample_lib (token_file (sample_world\<lparr>token_file := None\<rparr>)) = None"
    by (simp add: loadSavedCredentialsIfExist_def)
  have req: "requests (sample_world\<lparr>token_file := None\<rparr>) = []"
    by (simp add: sample_world_def)
  from not_authenticated_is_soft_error [OF none, of "''get_account''" None] none req
  show ?thesis by simp
qed

section \<open>The report specification of the scenario\<close>

text \<open>
  C5. For the arguments \<open>{dateRangeStart: "2024-01-01", dateRangeEnd: "2024-01-07",
  metrics: ["CLICKS"]}\<close> the report specification is \<open>{dateRange: {startDate: {year: 2024,
  month: 1, day: 1}, endDate: {year: 2024, month: 1, day: 7}}, metrics: ["CLICKS"]}\<close>: it has
  no key \<open>dimensions\<close>, \<open>dimensionFilters\<close> or \<open>sortConditions\<close>.
\<close>

theorem scenario_report_spec:
  "build_report_spec
     [''dateRangeStart'' \<mapsto> JStr ''2024-01-01'', ''dateRangeEnd'' \<mapsto> JStr ''2024-01-07'',
      ''metrics'' \<mapsto> JArr [JStr ''CLICKS'']] =
   Returns (Inr (Object
     [(''dateRange'',
       Object [(''startDate'', Object [(''year'', Lit (JNum 2024)), (''month'', Lit (JNum 1)),
                                       (''day'', Lit (JNum 1))]),
               (''endDate'', Object [(''year'', Lit (JNum 2024)), (''month'', Lit (JNum 1)),
                                     (''day'', Lit (JNum 7))])]),
      (''metrics'', Lit (JArr [JStr ''CLICKS'']))]))"
  by (simp add: build_report_spec_def falsy_def js_Number_def digit_val_def date_object_def
      element_def dimensions_part_def filters_part_def sort_part_def supplied_def opt_val_def)

section \<open>The two versions of the handler\<close>

lemma paginate_same:
  "tools3_paginate mk rs tok acc log = tools5_paginate mk rs tok acc log"
proof (induction rs arbitrary: tok acc log)
  case Nil
  show ?case by simp
next
  case (Cons r rs)
  show ?case
  proof (cases r)
    case (Fails e)
    then show ?thesis by simp
  next
    case (Reply ok st d)
    then show ?thesis
      using Cons.IH by (cases "nextPageToken d") (auto simp: Let_def)
  qed
qed

lemma get_account_same: "tools3_get_account w parent = tools5_get_account w parent"
  by (auto simp: tools3_get_account_def tools5_get_account_def split: list.splits api_result.splits)

text \<open>
  C10. On \<open>get_account\<close>, \<open>list_ad_units\<close> and \<open>list_apps\<close> the three-tool handler and the
  five-tool handler give the same outcome and leave the same world, whatever the library,
  the credential files, the environment and the responses of the API are.
\<close>

theorem handlers_agree_on_common_tools:
  assumes "name = ''get_account'' \<or> name = ''list_ad_units'' \<or> name = ''list_apps''"
  shows "tools3_handler L w name arguments = tools5_handler L w name arguments"
  using assms unfolding tools3_handler_def tools5_handler_def
  by (cases "PUBLISHER_CODE w")
     (auto simp: paginate_same get_account_same split: option.splits)

theorem handlers_agree_on_common_tools_witness:
  "tools3_handler sample_lib sample_world ''list_ad_units'' None =
     (Returns (ok_result (Lit (JArr [JStr ''unit-a'', JStr ''unit-b'', JStr ''unit-c'']))),
      sample_world\<lparr>adUnits_list_replies := [Fails ''unused''],
        requests := [AdUnitsList ''accounts/pub-1'' None, AdUnitsList ''accounts/pub-1'' (Some ''t1''),
                     AdUnitsList ''accounts/pub-1'' (Some ''t2'')]\<rparr>)
   \<and> tools5_handler sample_lib sample_world ''list_ad_units'' None =
       tools3_handler sample_lib sample_world ''list_ad_units'' None"
proof -
  have eq: "tools3_handler sample_lib sample_world ''list_ad_units'' None =
            tools5_handler sample_lib sample_world ''list_ad_units'' None"
    using handlers_agree_on_common_tools [of "''list_ad_units''" sample_lib sample_world None]
    by simp
  have "tools5_handler sample_lib sample_world ''list_ad_units'' None =
     (Returns (ok_result (Lit (JArr [JStr ''unit-a'', JStr ''unit-b'', JStr ''unit-c'']))),
      sample_world\<lparr>adUnits_list_replies := [Fails ''unused''],
        requests := [AdUnitsList ''accounts/pub-1'' None, AdUnitsList ''accounts/pub-1'' (Some ''t1''),
                     AdUnitsList ''accounts/pub-1'' (Some ''t2'')]\<rparr>)"
    by (simp add: tools5_handler_def sample_world_def sample_credentials
        sample_page1_def sample_page2_def sample_page3_def)
  with eq show ?thesis by simp
qed

section \<open>The optional parts of the report specification\<close>

lemma andThen_Returns:
  "andThen m f = Returns y \<Longrightarrow> \<exists>x. m = Returns x \<and> f x = Returns y"
  by (cases m) simp_all

lemma dimensions_part_keys:
  "dimensions_part d = Returns dims \<Longrightarrow> dims = [] \<or> (\<exists>v. dims = [(''dimensions'', v)])"
  by (auto simp: dimensions_part_def split: if_splits dest!: andThen_Returns)

lemma filters_part_keys:
  "filters_part f = Returns filters \<Longrightarrow> filters = [] \<or> (\<exists>v. filters = [(''dimensionFilters'', v)])"
  by (auto simp: filters_part_def split: option.splits if_splits json.splits dest!: andThen_Returns)

lemma sort_part_keys:
  "sort_part d m = Returns sorts \<Longrightarrow> sorts = [] \<or> (\<exists>v. sorts = [(''sortConditions'', v)])"
  by (auto simp: sort_part_def split: if_splits dest!: andThen_Returns)

lemma build_report_spec_parts:
  assumes "build_report_spec args = Returns (Inr spec)"
  obtains base dims filters sorts where
    "dimensions_part (args ''dimensions'') = Returns dims"
    "filters_part (args ''dimensionFilters'') = Returns filters"
    "sort_part (args ''dimensionSortCondition'') (args ''metricSortCondition'') = Returns sorts"
    "spec = Object ([(''dateRange'', base), (''metrics'', opt_val (args ''metrics''))]
                    @ dims @ filters @ sorts)"
  using assms unfolding build_report_spec_def
  by (auto dest!: andThen_Returns split: if_splits)

lemma spec_key_dimensionFilters:
  assumes "build_report_spec args = Returns (Inr spec)"
    and "filters_part (args ''dimensionFilters'') = Returns filters"
  shows "spec_key spec ''dimensionFilters'' = map_of filters ''dimensionFilters''"
proof -
  from assms(1) obtain base dims filters' sorts where
    d: "dimensions_part (args ''dimensions'') = Returns dims"
    and f: "filters_part (args ''dimensionFilters'') = Returns filters'"
    and s: "sort_part (args ''dimensionSortCondition'') (args ''metricSortCondition'') = Returns sorts"
    and sp: "spec = Object ([(''dateRange'', base), (''metrics'', opt_val (args ''metrics''))]
                    @ dims @ filters' @ sorts)"
    by (rule build_report_spec_parts)
  from f assms(2) have ff: "filters' = filters" by simp
  from dimensions_part_keys [OF d] filters_part_keys [OF f] sort_part_keys [OF s]
  show ?thesis unfolding sp ff by auto
qed

lemma spec_key_sortConditions:
  assumes "build_report_spec args = Returns (Inr spec)"
    and "sort_part (args ''dimensionSortCondition'') (args ''metricSortCondition'') = Returns sorts"
  shows "spec_key spec ''sortConditions'' = map_of sorts ''sortConditions''"
proof -
  from assms(1) obtain base dims filters sorts' where
    d: "dimensions_part (args ''dimensions'') = Returns dims"
    and f: "filters_part (args ''dimensionFilters'') = Returns filters"
    and s: "sort_part (args ''dimensionSortCondition'') (args ''metricSortCondition'') = Returns sorts'"
    and sp: "spec = Object ([(''dateRange'', base), (''metrics'', opt_val (args ''metrics''))]
                    @ dims @ filters @ sorts')"
    by (rule build_report_spec_parts)
  from s assms(2) have ss: "sorts' = sorts" by simp
  from dimensions_part_keys [OF d] filters_part_keys [OF f] sort_part_keys [OF s]
  show ?thesis unfolding sp ss by auto
qed

lemma report_request_sent:
  assumes "loadSavedCredentialsIfExist L (token_file w) = Some auth"
    and "PUBLISHER_CODE w = Some publisherCode" and "publisherCode \<noteq> []"
    and "build_report_spec args = Returns (Inr spec)"
  shows "requests (snd (tools5_handler L w ''generate_network_report'' (Some args))) =
           requests w @ [NetworkReportGenerate (''accounts/'' @ publisherCode) spec]"
    and "requests (snd (tools5_handler L w ''generate_mediation_report'' (Some args))) =
           requests w @ [MediationReportGenerate (''accounts/'' @ publisherCode) spec]"
  using assms
  by (simp_all add: tools5_handler_def tools5_generate_def split: list.splits)

lemma map_filters_schema:
  "list_all2 is_filter fs dvs \<Longrightarrow> map_filters fs = Returns (map provider_filter dvs)"
proof (induction fs dvs rule: list_all2_induct)
  case Nil
  show ?case by simp
next
  case (Cons f fs dv dvs)
  obtain D vs where dv: "dv = (D, vs)" by (cases dv)
  from Cons.hyps(1) dv obtain kvs where
    "f = JObj kvs" "map_of kvs ''dimension'' = Some D" "map_of kvs ''values'' = Some vs"
    by (cases f) auto
  then have "filter_entry f = Returns (provider_filter dv)"
    by (simp add: filter_entry_def opt_val_def dv)
  with Cons.IH show ?case by simp
qed
lemma sample_args_spec: "build_report_spec sample_args = Returns (Inr sample_spec)"
  by (simp add: sample_args_def sample_spec_def build_report_spec_def falsy_def js_Number_def
      digit_val_def date_object_def element_def dimensions_part_def filters_part_def
      sort_part_def supplied_def opt_val_def)

lemma build_report_spec_optional:
  assumes "args ''dateRangeStart'' = sample_args ''dateRangeStart''"
    and "args ''dateRangeEnd'' = sample_args ''dateRangeEnd''"
    and "args ''metrics'' = sample_args ''metrics''"
    and "dimensions_part (args ''dimensions'') = Returns dims"
    and "filters_part (args ''dimensionFilters'') = Returns filters"
    and "sort_part (args ''dimensionSortCondition'') (args ''metricSortCondition'') = Returns sorts"
  shows "build_report_spec args =
     Returns (Inr (Object
       ([(''dateRange'',
          Object [(''startDate'', Object [(''year'', Lit (JNum 2024)), (''month'', Lit (JNum 1)),
                                          (''day'', Lit (JNum 1))]),
                  (''endDate'', Object [(''year'', Lit (JNum 2024)), (''month'', Lit (JNum 1)),
                                        (''day'', Lit (JNum 7))])]),
         (''metrics'', Lit (JArr [JStr ''CLICKS'']))] @ dims @ filters @ sorts)))"
  using assms
  by (simp add: sample_args_def build_report_spec_def falsy_def js_Number_def
      digit_val_def date_object_def element_def opt_val_def)

text \<open>
  C3, as the code has it. Let a report call reach the API with the specification \<open>spec\<close>,
  its \<open>dimensionFilters\<close> being the list \<open>fs\<close> of objects \<open>{dimension: D, values: vs}\<close>. If
  \<open>fs\<close> is not empty, \<open>spec\<close> holds under \<open>dimensionFilters\<close> the filters \<open>{dimension: D,
  matchesAny: {values: vs}}\<close>, one for each element of \<open>fs\<close> and in the same order; if \<open>fs\<close>
  is empty, \<open>spec\<close> has no key \<open>dimensionFilters\<close>. In both cases \<open>spec\<close> is the specification
  of the one request sent.
\<close>

theorem dimension_filters_to_provider_filters:
  assumes "loadSavedCredentialsIfExist L (token_file w) = Some auth"
    and "PUBLISHER_CODE w = Some publisherCode" and "publisherCode \<noteq> []"
    and "args ''dimensionFilters'' = Some (JArr fs)"
    and "list_all2 is_filter fs dvs"
    and "build_report_spec args = Returns (Inr spec)"
  shows "spec_key spec ''dimensionFilters'' =
           (if fs = [] then None else Some (Array (map provider_filter dvs)))
       \<and> requests (snd (tools5_handler L w ''generate_network_report'' (Some args))) =
           requests w @ [NetworkReportGenerate (''accounts/'' @ publisherCode) spec]
       \<and> requests (snd (tools5_handler L w ''generate_mediation_report'' (Some args))) =
           requests w @ [MediationReportGenerate (''accounts/'' @ publisherCode) spec]"
proof -
  have "filters_part (args ''dimensionFilters'') =
          Returns (if fs = [] then [] else [(''dimensionFilters'', Array (map provider_filter dvs))])"
    using assms(4) map_filters_schema [OF assms(5)]
    by (simp add: filters_part_def)
  from spec_key_dimensionFilters [OF assms(6) this]
  have "spec_key spec ''dimensionFilters'' =
           (if fs = [] then None else Some (Array (map provider_filter dvs)))"
    by simp
  with report_request_sent [OF assms(1,2,3,6)] show ?thesis by simp
qed

theorem dimension_filters_to_provider_filters_witness:
  "spec_key
     (Object
       [(''dateRange'',
         Object [(''startDate'', Object [(''year'', Lit (JNum 2024)), (''month'', Lit (JNum 1)),
                                         (''day'', Lit (JNum 1))]),
                 (''endDate'', Object [(''year'', Lit (JNum 2024)), (''month'', Lit (JNum 1)),
                                       (''day'', Lit (JNum 7))])]),
        (''metrics'', Lit (JArr [JStr ''CLICKS''])),
        (''dimensionFilters'',
         Array [Object [(''dimension'', Lit (JStr ''COUNTRY'')),
                        (''matchesAny'', Object [(''values'', Lit (JArr [JStr ''US'', JStr ''KR'']))])],
                Object [(''dimension'', Lit (JStr ''PLATFORM'')),
                        (''matchesAny'', Object [(''values'', Lit (JArr [JStr ''Android'']))])]])])
     ''dimensionFilters'' =
   Some (Array (map provider_filter
     [(JStr ''COUNTRY'', JArr [JStr ''US'', JStr ''KR'']), (JStr ''PLATFORM'', JArr [JStr ''Android''])]))
   \<and> requests (snd (tools5_handler sample_lib sample_world ''generate_mediation_report''
         (Some (sample_args(''dimensionFilters'' \<mapsto> JArr sample_filters))))) =
     [MediationReportGenerate ''accounts/pub-1''
       (Object
         [(''dateRange'',
           Object [(''startDate'', Object [(''year'', Lit (JNum 2024)), (''month'', Lit (JNum 1)),
                                           (''day'', Lit (JNum 1))]),
                   (''endDate'', Object [(''year'', Lit (JNum 2024)), (''month'', Lit (JNum 1)),
                                         (''day'', Lit (JNum 7))])]),
          (''metrics'', Lit (JArr [JStr ''CLICKS''])),
          (''dimensionFilters'',
           Array [Object [(''dimension'', Lit (JStr ''COUNTRY'')),
                          (''matchesAny'', Object [(''values'', Lit (JArr [JStr ''US'', JStr ''KR'']))])],
                  Object [(''dimension'', Lit (JStr ''PLATFORM'')),
                          (''matchesAny'', Object [(''values'', Lit (JArr [JStr ''Android'']))])]])])]"
proof -
  let ?args = "sample_args(''dimensionFilters'' \<mapsto> JArr sample_filters)"
  let ?dvs = "[(JStr ''COUNTRY'', JArr [JStr ''US'', JStr ''KR'']), (JStr ''PLATFORM'', JArr [JStr ''Android''])]"
  have auth: "loadSavedCredentialsIfExist sample_lib (token_file sample_world) =
     Some \<lparr>client_id = Lit (JStr ''id-1''), client_secret = Lit (JStr ''s3cret''),
           credentials = [(''refresh_token'', JStr ''r-1'')]\<rparr>"
    by (simp add: sample_world_def sample_credentials)
  have pc: "PUBLISHER_CODE sample_world = Some ''pub-1''" "''pub-1'' \<noteq> []"
    and req: "requests sample_world = []"
    by (simp_all add: sample_world_def)
  have fs: "?args ''dimensionFilters'' = Some (JArr sample_filters)" by simp
  have sch: "list_all2 is_filter sample_filters ?dvs"
    by (simp add: sample_filters_def)
  have built: "build_report_spec ?args =
     Returns (Inr (Object
       ([(''dateRange'',
          Object [(''startDate'', Object [(''year'', Lit (JNum 2024)), (''month'', Lit (JNum 1)),
                                          (''day'', Lit (JNum 1))]),
                  (''endDate'', Object [(''year'', Lit (JNum 2024)), (''month'', Lit (JNum 1)),
                                        (''day'', Lit (JNum 7))])]),
         (''metrics'', Lit (JArr [JStr ''CLICKS'']))] @ [] @
         [(''dimensionFilters'',
           Array [Object [(''dimension'', Lit (JStr ''COUNTRY'')),
                          (''matchesAny'', Object [(''values'', Lit (JArr [JStr ''US'', JStr ''KR'']))])],
                  Object [(''dimension'', Lit (JStr ''PLATFORM'')),
                          (''matchesAny'', Object [(''values'', Lit (JArr [JStr ''Android'']))])]])]
         @ [])))"
    by (rule build_report_spec_optional)
       (simp_all add: sample_args_def sample_filters_def dimensions_part_def filters_part_def
          filter_entry_def sort_part_def supplied_def opt_val_def)
  from dimension_filters_to_provider_filters [OF auth pc fs sch built] req
  show ?thesis by (simp add: sample_filters_def)
qed

theorem empty_dimension_filters_counterexample:
  "requests (snd (tools5_handler sample_lib sample_world ''generate_network_report''
      (Some (sample_args(''dimensionFilters'' \<mapsto> JArr []))))) =
     [NetworkReportGenerate ''accounts/pub-1'' sample_spec]
   \<and> spec_key sample_spec ''dimensionFilters'' = None
   \<and> spec_key sample_spec ''dimensionFilters'' \<noteq> Some (Array (map provider_filter []))"
proof -
  have "build_report_spec (sample_args(''dimensionFilters'' \<mapsto> JArr [])) = Returns (Inr sample_spec)"
    unfolding sample_spec_def
    using build_report_spec_optional [of "sample_args(''dimensionFilters'' \<mapsto> JArr [])" "[]" "[]" "[]"]
    by (simp add: sample_args_def dimensions_part_def filters_part_def sort_part_def supplied_def)
  then show ?thesis
    by (simp add: tools5_handler_def tools5_generate_def sample_world_def sample_credentials
        sample_spec_def)
qed
section \<open>Sort conditions\<close>

lemma sort_entry_condition:
  assumes "is_sort_condition k c x ord"
  shows "sort_entry k (Some c) =
           Returns (if x \<noteq> [] \<and> ord \<noteq> [] then [sort_condition k x ord] else [])"
proof -
  from assms obtain kvs where c: "c = JObj kvs"
    and kv: "map_of kvs k = Some (JStr x)" "map_of kvs ''order'' = Some (JStr ord)"
    by (cases c) auto
  show ?thesis
    by (simp add: c kv sort_entry_def field_nonempty_def length_positive_def
        sort_condition_def opt_val_def)
qed

lemma supplied_condition: "is_sort_condition k c x ord \<Longrightarrow> supplied (Some c)"
  by (cases c) (auto simp: supplied_def)

lemma sort_entry_absent: "sort_entry k None = Returns []"
  by (simp add: sort_entry_def)

lemma sort_part_both:
  assumes "is_sort_condition ''dimension'' ds x xo" and "x \<noteq> []" and "xo \<noteq> []"
    and "is_sort_condition ''metric'' ms y yo" and "y \<noteq> []" and "yo \<noteq> []"
  shows "sort_part (Some ds) (Some ms) =
           Returns [(''sortConditions'',
                     Array [sort_condition ''dimension'' x xo, sort_condition ''metric'' y yo])]"
  using assms supplied_condition [OF assms(1)]
  by (simp add: sort_part_def sort_entry_condition)

lemma sort_part_neither: "sort_part None None = Returns []"
  by (simp add: sort_part_def supplied_def)

lemma sort_part_drops_dimension:
  assumes "is_sort_condition ''dimension'' ds x xo" and "x = [] \<or> xo = []"
    and "m = None \<or> (m = Some ms \<and> is_sort_condition ''metric'' ms y yo)"
  shows "sort_part (Some ds) m = sort_part None m"
proof -
  have d: "sort_entry ''dimension'' (Some ds) = Returns []"
    using assms(1,2) by (auto simp: sort_entry_condition)
  from assms(3) show ?thesis
  proof
    assume "m = None"
    then show ?thesis
      using supplied_condition [OF assms(1)]
      by (simp add: sort_part_def d sort_entry_absent supplied_def)
  next
    assume "m = Some ms \<and> is_sort_condition ''metric'' ms y yo"
    then show ?thesis
      using supplied_condition [of "''metric''" ms y yo]
      by (simp add: sort_part_def d sort_entry_absent)
  qed
qed

lemma sort_part_drops_metric:
  assumes "is_sort_condition ''metric'' ms y yo" and "y = [] \<or> yo = []"
    and "d = None \<or> (d = Some ds \<and> is_sort_condition ''dimension'' ds x xo)"
  shows "sort_part d (Some ms) = sort_part d None"
proof -
  have m: "sort_entry ''metric'' (Some ms) = Returns []"
    using assms(1,2) by (auto simp: sort_entry_condition)
  from assms(3) show ?thesis
  proof
    assume "d = None"
    then show ?thesis
      using supplied_condition [OF assms(1)]
      by (simp add: sort_part_def m sort_entry_absent supplied_def)
  next
    assume "d = Some ds \<and> is_sort_condition ''dimension'' ds x xo"
    then show ?thesis
      using supplied_condition [of "''dimension''" ds x xo]
      by (simp add: sort_part_def m sort_entry_absent sort_entry_condition)
  qed
qed

text \<open>
  C4. (1) With a dimension-sort condition and a metric-sort condition, both with non-empty
  fields, the report specification has exactly two \<open>sortConditions\<close>, the dimension one
  first and the metric one second. (2) With neither, it has no key \<open>sortConditions\<close>.
  (3, 4) A condition whose \<open>dimension\<close>, \<open>metric\<close> or \<open>order\<close> is the empty string is dropped
  without a trace: the call goes exactly as if the condition had not been supplied (the other
  condition being absent or one of the schema).
\<close>

theorem sort_conditions_of_report_spec:
  "(build_report_spec args = Returns (Inr spec)
      \<and> args ''dimensionSortCondition'' = Some ds \<and> is_sort_condition ''dimension'' ds x xo
      \<and> x \<noteq> [] \<and> xo \<noteq> []
      \<and> args ''metricSortCondition'' = Some ms \<and> is_sort_condition ''metric'' ms y yo
      \<and> y \<noteq> [] \<and> yo \<noteq> []
    \<longrightarrow> spec_key spec ''sortConditions'' =
          Some (Array [sort_condition ''dimension'' x xo, sort_condition ''metric'' y yo]))
   \<and> (build_report_spec args = Returns (Inr spec)
      \<and> args ''dimensionSortCondition'' = None \<and> args ''metricSortCondition'' = None
    \<longrightarrow> spec_key spec ''sortConditions'' = None)
   \<and> (args ''dimensionSortCondition'' = Some ds \<and> is_sort_condition ''dimension'' ds x xo
      \<and> (x = [] \<or> xo = [])
      \<and> (args ''metricSortCondition'' = None
         \<or> (args ''metricSortCondition'' = Some ms \<and> is_sort_condition ''metric'' ms y yo))
    \<longrightarrow> build_report_spec args = build_report_spec (args(''dimensionSortCondition'' := None)))
   \<and> (args ''metricSortCondition'' = Some ms \<and> is_sort_condition ''metric'' ms y yo
      \<and> (y = [] \<or> yo = [])
      \<and> (args ''dimensionSortCondition'' = None
         \<or> (args ''dimensionSortCondition'' = Some ds \<and> is_sort_condition ''dimension'' ds x xo))
    \<longrightarrow> build_report_spec args = build_report_spec (args(''metricSortCondition'' := None)))"
proof (intro conjI impI)
  assume a: "build_report_spec args = Returns (Inr spec)
      \<and> args ''dimensionSortCondition'' = Some ds \<and> is_sort_condition ''dimension'' ds x xo
      \<and> x \<noteq> [] \<and> xo \<noteq> []
      \<and> args ''metricSortCondition'' = Some ms \<and> is_sort_condition ''metric'' ms y yo
      \<and> y \<noteq> [] \<and> yo \<noteq> []"
  then have "sort_part (args ''dimensionSortCondition'') (args ''metricSortCondition'') =
           Returns [(''sortConditions'',
                     Array [sort_condition ''dimension'' x xo, sort_condition ''metric'' y yo])]"
    by (simp add: sort_part_both)
  from spec_key_sortConditions [OF _ this] a
  show "spec_key spec ''sortConditions'' =
          Some (Array [sort_condition ''dimension'' x xo, sort_condition ''metric'' y yo])"
    by simp
next
  assume b: "build_report_spec args = Returns (Inr spec)
      \<and> args ''dimensionSortCondition'' = None \<and> args ''metricSortCondition'' = None"
  then have "sort_part (args ''dimensionSortCondition'') (args ''metricSortCondition'') = Returns []"
    by (simp add: sort_part_neither)
  from spec_key_sortConditions [OF _ this] b
  show "spec_key spec ''sortConditions'' = None" by simp
next
  assume c: "args ''dimensionSortCondition'' = Some ds \<and> is_sort_condition ''dimension'' ds x xo
      \<and> (x = [] \<or> xo = [])
      \<and> (args ''metricSortCondition'' = None
         \<or> (args ''metricSortCondition'' = Some ms \<and> is_sort_condition ''metric'' ms y yo))"
  then have "sort_part (Some ds) (args ''metricSortCondition'') =
             sort_part None (args ''metricSortCondition'')"
    by (intro sort_part_drops_dimension [of ds x xo _ ms y yo]) simp_all
  with c show "build_report_spec args = build_report_spec (args(''dimensionSortCondition'' := None))"
    by (simp add: build_report_spec_def cong: if_cong)
next
  assume d: "args ''metricSortCondition'' = Some ms \<and> is_sort_condition ''metric'' ms y yo
      \<and> (y = [] \<or> yo = [])
      \<and> (args ''dimensionSortCondition'' = None
         \<or> (args ''dimensionSortCondition'' = Some ds \<and> is_sort_condition ''dimension'' ds x xo))"
  then have "sort_part (args ''dimensionSortCondition'') (Some ms) =
             sort_part (args ''dimensionSortCondition'') None"
    by (intro sort_part_drops_metric [of ms y yo _ ds x xo]) simp_all
  with d show "build_report_spec args = build_report_spec (args(''metricSortCondition'' := None))"
    by (simp add: build_report_spec_def cong: if_cong)
qed
theorem sort_conditions_of_report_spec_witness:
  "spec_key sample_sorted_spec ''sortConditions'' =
     Some (Array [sort_condition ''dimension'' ''DATE'' ''ASCENDING'',
                  sort_condition ''metric'' ''CLICKS'' ''DESCENDING''])
   \<and> build_report_spec (sample_args(''dimensionSortCondition'' \<mapsto> sample_dimension_sort,
                                     ''metricSortCondition'' \<mapsto> sample_metric_sort)) =
       Returns (Inr sample_sorted_spec)
   \<and> spec_key sample_spec ''sortConditions'' = None
   \<and> build_report_spec (sample_args(''dimensionSortCondition'' \<mapsto> sample_empty_sort)) =
       Returns (Inr sample_spec)
   \<and> build_report_spec (sample_args(''dimensionSortCondition'' \<mapsto> sample_dimension_sort,
                                     ''metricSortCondition'' \<mapsto> sample_orderless_sort)) =
       build_report_spec (sample_args(''dimensionSortCondition'' \<mapsto> sample_dimension_sort))"
proof -
  let ?both = "sample_args(''dimensionSortCondition'' \<mapsto> sample_dimension_sort,
                           ''metricSortCondition'' \<mapsto> sample_metric_sort)"
  let ?empty = "sample_args(''dimensionSortCondition'' \<mapsto> sample_empty_sort)"
  let ?orderless = "sample_args(''dimensionSortCondition'' \<mapsto> sample_dimension_sort,
                                ''metricSortCondition'' \<mapsto> sample_orderless_sort)"
  have ds: "is_sort_condition ''dimension'' sample_dimension_sort ''DATE'' ''ASCENDING''"
    and ms: "is_sort_condition ''metric'' sample_metric_sort ''CLICKS'' ''DESCENDING''"
    and es: "is_sort_condition ''dimension'' sample_empty_sort [] ''ASCENDING''"
    and os: "is_sort_condition ''metric'' sample_orderless_sort ''CLICKS'' []"
    by (simp_all add: sample_dimension_sort_def sample_metric_sort_def sample_empty_sort_def
        sample_orderless_sort_def)
  have both: "build_report_spec ?both = Returns (Inr sample_sorted_spec)"
    unfolding sample_sorted_spec_def
    using build_report_spec_optional [of ?both "[]" "[]"
        "[(''sortConditions'',
           Array [sort_condition ''dimension'' ''DATE'' ''ASCENDING'',
                  sort_condition ''metric'' ''CLICKS'' ''DESCENDING''])]"]
      sort_part_both [OF ds _ _ ms]
    by (simp add: sample_args_def dimensions_part_def filters_part_def sort_condition_def)
  have none: "sample_args ''dimensionSortCondition'' = None"
    "sample_args ''metricSortCondition'' = None"
    by (simp_all add: sample_args_def)
  have 1: "spec_key sample_sorted_spec ''sortConditions'' =
     Some (Array [sort_condition ''dimension'' ''DATE'' ''ASCENDING'',
                  sort_condition ''metric'' ''CLICKS'' ''DESCENDING''])"
    using sort_conditions_of_report_spec [of ?both sample_sorted_spec sample_dimension_sort
        "''DATE''" "''ASCENDING''" sample_metric_sort "''CLICKS''" "''DESCENDING''"] both ds ms
    by simp
  have 2: "spec_key sample_spec ''sortConditions'' = None"
    using sort_conditions_of_report_spec [of sample_args sample_spec] sample_args_spec none
    by simp
  have "build_report_spec ?empty = build_report_spec (?empty(''dimensionSortCondition'' := None))"
    using sort_conditions_of_report_spec [of ?empty _ sample_empty_sort "[]" "''ASCENDING''"] es none
    by simp
  moreover have "?empty(''dimensionSortCondition'' := None) = sample_args"
    using none by (auto simp: fun_eq_iff)
  ultimately have 3: "build_report_spec ?empty = Returns (Inr sample_spec)"
    by (simp add: sample_args_spec)
  have "build_report_spec ?orderless = build_report_spec (?orderless(''metricSortCondition'' := None))"
    using sort_conditions_of_report_spec [of ?orderless _ sample_dimension_sort "''DATE''"
        "''ASCENDING''" sample_orderless_sort "''CLICKS''" "[]"] ds os
    by simp
  moreover have "?orderless(''metricSortCondition'' := None) =
                 sample_args(''dimensionSortCondition'' \<mapsto> sample_dimension_sort)"
    using none by (auto simp: fun_eq_iff)
  ultimately have 4: "build_report_spec ?orderless =
       build_report_spec (sample_args(''dimensionSortCondition'' \<mapsto> sample_dimension_sort))"
    by simp
  from 1 both 2 3 4 show ?thesis by simp
qed

section \<open>Report calls with missing required arguments\<close>

text \<open>
  C2 at three inputs. A call of \<open>generate_network_report\<close> without \<open>dateRangeStart\<close> throws
  a \<open>TypeError\<close> at \<open>dateRangeStart.split\<close>, before the check of the required parameters is
  reached; with an empty \<open>metrics\<close> list the check passes and the request is sent; only a
  call without \<open>metrics\<close> (both dates present) gets the error block.
\<close>

theorem missing_start_date_throws:
  "tools5_handler sample_lib sample_world ''generate_network_report''
     (Some [''dateRangeEnd'' \<mapsto> JStr ''2024-01-07'', ''metrics'' \<mapsto> JArr [JStr ''CLICKS'']]) =
     (Throws TypeError, sample_world)
   \<and> requests (snd (tools5_handler sample_lib sample_world ''generate_network_report''
        (Some (sample_args(''metrics'' \<mapsto> JArr []))))) =
     [NetworkReportGenerate ''accounts/pub-1''
        (Object
          [(''dateRange'',
            Object [(''startDate'', Object [(''year'', Lit (JNum 2024)), (''month'', Lit (JNum 1)),
                                            (''day'', Lit (JNum 1))]),
                    (''endDate'', Object [(''year'', Lit (JNum 2024)), (''month'', Lit (JNum 1)),
                                          (''day'', Lit (JNum 7))])]),
           (''metrics'', Lit (JArr []))])]
   \<and> tools5_handler sample_lib sample_world ''generate_network_report''
       (Some (sample_args(''metrics'' := None))) =
     (Returns (error_result ''Missing required parameters.''), sample_world)"
proof -
  have 1: "build_report_spec [''dateRangeEnd'' \<mapsto> JStr ''2024-01-07'', ''metrics'' \<mapsto> JArr [JStr ''CLICKS'']]
            = Throws TypeError"
    by (simp add: build_report_spec_def)
  have 2: "build_report_spec (sample_args(''metrics'' \<mapsto> JArr [])) =
     Returns (Inr (Object
          [(''dateRange'',
            Object [(''startDate'', Object [(''year'', Lit (JNum 2024)), (''month'', Lit (JNum 1)),
                                            (''day'', Lit (JNum 1))]),
                    (''endDate'', Object [(''year'', Lit (JNum 2024)), (''month'', Lit (JNum 1)),
                                          (''day'', Lit (JNum 7))])]),
           (''metrics'', Lit (JArr []))]))"
    by (simp add: sample_args_def build_report_spec_def falsy_def js_Number_def
      digit_val_def date_object_def element_def dimensions_part_def filters_part_def
      sort_part_def supplied_def opt_val_def)
  have 3: "build_report_spec (sample_args(''metrics'' := None)) =
     Returns (Inl (error_result ''Missing required parameters.''))"
    by (simp add: sample_args_def build_report_spec_def falsy_def)
  have auth: "loadSavedCredentialsIfExist sample_lib (token_file sample_world) =
     Some \<lparr>client_id = Lit (JStr ''id-1''), client_secret = Lit (JStr ''s3cret''),
           credentials = [(''refresh_token'', JStr ''r-1'')]\<rparr>"
    by (simp add: sample_world_def sample_credentials)
  have pc: "PUBLISHER_CODE sample_world = Some ''pub-1''"
    and rs: "networkReport_replies sample_world = [Reply True 200 (JArr [])]"
    and req: "requests sample_world = []"
    by (simp_all add: sample_world_def)
  show ?thesis
    by (simp add: tools5_handler_def tools5_generate_def auth pc rs req 1 2 3)
qed

section \<open>Exceptions that leave the handler\<close>

text \<open>
  C9 at three inputs. A report call whose arguments are the empty object throws a
  \<open>TypeError\<close> out of the handler; so does \<open>get_account\<close> when the API client throws, since
  neither branch has a \<open>try\<close>; the same failure inside \<open>list_ad_units\<close> is caught and
  returned as an error block.
\<close>

theorem report_call_throws_out_of_handler:
  "tools5_handler sample_lib sample_world ''generate_mediation_report'' (Some Map.empty) =
     (Throws TypeError, sample_world)
   \<and> fst (tools5_handler sample_lib
        (sample_world\<lparr>accounts_get_replies := [Fails ''Error: socket hang up'']\<rparr>)
        ''get_account'' None) = Throws (ApiError ''Error: socket hang up'')
   \<and> fst (tools5_handler sample_lib
        (sample_world\<lparr>adUnits_list_replies := [Fails ''Error: socket hang up'']\<rparr>)
        ''list_ad_units'' None) = Returns (error_result ''An error occurred: Error: socket hang up'')"
proof -
  have 1: "build_report_spec Map.empty = Throws TypeError"
    by (simp add: build_report_spec_def)
  have tok: "token_file sample_world = Some ''token.json''"
    and pc: "PUBLISHER_CODE sample_world = Some ''pub-1''"
    by (simp_all add: sample_world_def)
  show ?thesis
    by (simp add: tools5_handler_def tools5_get_account_def tok pc sample_credentials 1)
qed

section \<open>Properties of the authorization flow\<close>

text \<open>
  C8. When the token file yields a client, \<open>authorize\<close> returns that client and changes
  nothing: no event is added (no listener, no browser, no exchange of a code, no write of the
  token file), and the token file is as it was.
\<close>

theorem authorize_returns_saved_client:
  assumes "loadSavedCredentialsIfExist L (token_file w) = Some client"
  shows "authorize L w = (Returns client, w)
       \<and> events (snd (authorize L w)) = events w
       \<and> token_file (snd (authorize L w)) = token_file w"
  using assms by (simp add: authorize_def)

theorem authorize_returns_saved_client_witness:
  "authorize sample_lib (sample_auth_world\<lparr>token_file := Some ''token.json''\<rparr>) =
     (Returns \<lparr>client_id = Lit (JStr ''id-1''), client_secret = Lit (JStr ''s3cret''),
               credentials = [(''refresh_token'', JStr ''r-1'')]\<rparr>,
      sample_auth_world\<lparr>token_file := Some ''token.json''\<rparr>)
   \<and> events (snd (authorize sample_lib (sample_auth_world\<lparr>token_file := Some ''token.json''\<rparr>))) = []"
proof -
  have "loadSavedCredentialsIfExist sample_lib
          (token_file (sample_auth_world\<lparr>token_file := Some ''token.json''\<rparr>)) =
     Some \<lparr>client_id = Lit (JStr ''id-1''), client_secret = Lit (JStr ''s3cret''),
           credentials = [(''refresh_token'', JStr ''r-1'')]\<rparr>"
    by (simp add: sample_credentials)
  from authorize_returns_saved_client [OF this]
  show ?thesis by (simp add: sample_auth_world_def)
qed

lemma client_secret_key_truthy: "client_secret_key L file = Returns key \<Longrightarrow> truthy key"
  by (auto simp: client_secret_key_def split: option.splits sum.splits if_splits)

lemma key_field_of_truthy: "truthy key \<Longrightarrow> \<exists>v. key_field key k = Returns v"
  by (cases key) (simp_all add: key_field_def)

lemma await_callback_without_code:
  assumes "list_all (\<lambda>r. \<not> is_callback r) ignored" and "is_callback (Some u)"
    and "searchParams_code L u = Inr None"
  shows "await_callback L exchange c (ignored @ Some u # rest) evs =
           (Throws (Error ''No code found in callback URL''), rest, evs @ [ResponseEnd, ServerClose])"
  using assms
proof (induction ignored)
  case Nil
  then show ?case by (cases u) simp_all
next
  case (Cons r ignored)
  then show ?case by (cases r) simp_all
qed

text \<open>
  C7. Let the flow start (no client can be loaded), the client secret be usable and port
  3000 free. Let \<open>Some u\<close> be the first request that the listener takes for the callback,
  and let its URL have no \<open>code\<close> parameter. Then \<open>authorize\<close> fails with "No code found in
  callback URL"; the events of the run are the listener bound, the browser opened, the
  response ended and the listener closed, in this order, so the listener is closed when the
  failure is raised; and the token file is not written.
\<close>

theorem callback_without_code_fails:
  assumes "loadSavedCredentialsIfExist L (token_file w) = None"
    and "client_secret_key L (secret_file w) = Returns key"
    and "port_free w"
    and "incoming w = ignored @ Some u # rest"
    and "list_all (\<lambda>r. \<not> is_callback r) ignored" and "is_callback (Some u)"
    and "searchParams_code L u = Inr None"
  shows "fst (authorize L w) = Throws (Error ''No code found in callback URL'')
       \<and> (\<exists>url. events (snd (authorize L w)) =
                   events w @ [Listen, OpenBrowser url, ResponseEnd, ServerClose])
       \<and> token_file (snd (authorize L w)) = token_file w
       \<and> incoming (snd (authorize L w)) = rest"
proof -
  from client_secret_key_truthy [OF assms(2)] have t: "truthy key" .
  from key_field_of_truthy [OF t] obtain cid where cid: "key_field key ''client_id'' = Returns cid"
    by blast
  from key_field_of_truthy [OF t] obtain cs where cs: "key_field key ''client_secret'' = Returns cs"
    by blast
  have "authenticate L w =
          (Throws (Error ''No code found in callback URL''),
           w\<lparr>incoming := rest,
             events := events w @
               [Listen, OpenBrowser (generateAuthUrl L
                  \<lparr>client_id = cid, client_secret = cs, credentials = []\<rparr>)] @
               [ResponseEnd, ServerClose]\<rparr>)"
    using assms(2,3,4) cid cs await_callback_without_code [OF assms(5,6,7)]
    by (simp add: authenticate_def)
  with assms(1) show ?thesis
    by (simp add: authorize_def)
qed

theorem callback_without_code_fails_witness:
  "fst (authorize sample_lib sample_auth_world) = Throws (Error ''No code found in callback URL'')
   \<and> events (snd (authorize sample_lib sample_auth_world)) =
       [Listen, OpenBrowser ''https://accounts.google.com/o/oauth2/v2/auth'', ResponseEnd, ServerClose]
   \<and> token_file (snd (authorize sample_lib sample_auth_world)) = None
   \<and> incoming (snd (authorize sample_lib sample_auth_world)) = [Some ''/oauth2callback?code=4/abc'']"
proof -
  have load: "loadSavedCredentialsIfExist sample_lib (token_file sample_auth_world) = None"
    by (simp add: sample_auth_world_def loadSavedCredentialsIfExist_def)
  have key: "client_secret_key sample_lib (secret_file sample_auth_world) =
               Returns (JObj [(''client_id'', JStr ''id-1''), (''client_secret'', JStr ''s3cret'')])"
    by (simp add: sample_auth_world_def client_secret_key_def sample_lib_def)
  have port: "port_free sample_auth_world"
    and inc: "incoming sample_auth_world =
       [Some ''/favicon.ico''] @ Some ''/oauth2callback?error=access_denied''
         # [Some ''/oauth2callback?code=4/abc'']"
    and evs: "events sample_auth_world = []"
    and tok: "token_file sample_auth_world = None"
    by (simp_all add: sample_auth_world_def)
  have ign: "list_all (\<lambda>r. \<not> is_callback r) [Some ''/favicon.ico'']"
    by simp
  have cb: "is_callback (Some ''/oauth2callback?error=access_denied'')"
    by simp
  have code: "searchParams_code sample_lib ''/oauth2callback?error=access_denied'' = Inr None"
    by (simp add: sample_lib_def)
  from callback_without_code_fails [OF load key port inc ign cb code]
  have c: "fst (authorize sample_lib sample_auth_world) = Throws (Error ''No code found in callback URL'')"
    "token_file (snd (authorize sample_lib sample_auth_world)) = None"
    "incoming (snd (authorize sample_lib sample_auth_world)) = [Some ''/oauth2callback?code=4/abc'']"
    by (simp_all add: tok)
  have url: "\<And>c. generateAuthUrl sample_lib c = ''https://accounts.google.com/o/oauth2/v2/auth''"
    by (simp add: sample_lib_def)
  have "authenticate sample_lib sample_auth_world =
          (Throws (Error ''No code found in callback URL''),
           sample_auth_world\<lparr>incoming := [Some ''/oauth2callback?code=4/abc''],
             events := [Listen, OpenBrowser ''https://accounts.google.com/o/oauth2/v2/auth'',
                        ResponseEnd, ServerClose]\<rparr>)"
    using await_callback_without_code [OF ign cb code] url
    by (simp add: authenticate_def key key_field_def port inc evs opt_val_def)
  with load have "events (snd (authorize sample_lib sample_auth_world)) =
       [Listen, OpenBrowser ''https://accounts.google.com/o/oauth2/v2/auth'', ResponseEnd, ServerClose]"
    by (simp add: authorize_def)
  with c show ?thesis by simp
qed

end
